theory Spec2Isabelle
  imports Main "HOL-Library.Word"
begin

section \<open>JavaScript strings and errors\<close>

text \<open>
  Strings are lists of characters; the three string methods the sources call are
  written out for a one-character separator and an arbitrary prefix or infix.
  \<open>String_split\<close> is \<^verbatim>\<open>s.split(sep)\<close>: it cuts at every occurrence of the
  separator, keeps empty segments, and returns one (empty) segment for the empty string.
\<close>

type_synonym byte = "8 word"

definition startsWith :: "string \<Rightarrow> string \<Rightarrow> bool" where
  "startsWith s p = (take (length p) s = p)"

fun String_includes :: "string \<Rightarrow> string \<Rightarrow> bool" where
  "String_includes [] p = (p = [])"
| "String_includes (c # cs) p = (startsWith (c # cs) p \<or> String_includes cs p)"

fun String_split :: "string \<Rightarrow> char \<Rightarrow> string list" where
  "String_split [] sep = [[]]"
| "String_split (c # cs) sep =
     (if c = sep then [] # String_split cs sep
      else (case String_split cs sep of
              [] \<Rightarrow> [[c]]
            | seg # segs \<Rightarrow> (c # seg) # segs))"

text \<open>
  A \<^verbatim>\<open>throw\<close> is the left summand of the result. \<open>PrivateKeyError\<close> and
  \<open>NodeIdError\<close> are the two error classes the identity formatter raises itself, with
  their message; \<open>TypeError\<close> is the runtime's error for reading a property of
  \<^verbatim>\<open>undefined\<close> or calling what is not a function; \<open>Thrown x\<close> is an exception
  \<open>x\<close> raised by a collaborator that is not among the source files (the codec, a
  module's constructor) and passed on untouched.
\<close>

datatype 'x error =
    PrivateKeyError string
  | NodeIdError string
  | TypeError
  | Thrown 'x

text \<open>
  The format errors are the two classes raised for a missing prefix.
\<close>

fun isFormatError :: "'x error \<Rightarrow> bool" where
  "isFormatError (PrivateKeyError m) = True"
| "isFormatError (NodeIdError m) = True"
| "isFormatError TypeError = False"
| "isFormatError (Thrown x) = False"

section \<open>Identity formatter (utils/helperfunctions.ts)\<close>

text \<open>
  The checksummed base58 codec (\<^verbatim>\<open>bintools.cb58Encode\<close>, \<^verbatim>\<open>bintools.cb58Decode\<close>)
  lives in \<^verbatim>\<open>utils/bintools\<close>, outside the source files: both functions are parameters.
  The decoder may throw (a bad checksum, a character outside the alphabet), so it
  returns a sum.

  Modelled from the spec: the codec's strings are base58 strings, that is, strings
  over the base58 alphabet (digits and letters without \<^verbatim>\<open>0\<close>, \<^verbatim>\<open>O\<close>, \<^verbatim>\<open>I\<close> and
  \<^verbatim>\<open>l\<close>), as the identifiers in the end-to-end tests are.
\<close>

definition base58_alphabet :: string where
  "base58_alphabet = ''123456789ABCDEFGHJKLMNPQRSTUVWXYZabcdefghijkmnopqrstuvwxyz''"

definition is_base58 :: "string \<Rightarrow> bool" where
  "is_base58 s = list_all (\<lambda>c. c \<in> set base58_alphabet) s"

definition quote :: string where
  "quote = [CHR 0x27]"

definition PrivateKeyError_message :: string where
  "PrivateKeyError_message =
     ''Error - privateKeyStringToBuffer: private keys must start with ''
       @ quote @ ''PrivateKey-'' @ quote"

definition NodeIdError_message :: string where
  "NodeIdError_message =
     ''Error - privateNodeIDToBuffer: nodeID must start with ''
       @ quote @ ''NodeID-'' @ quote"

definition bufferToPrivateKeyString :: "(byte list \<Rightarrow> string) \<Rightarrow> byte list \<Rightarrow> string" where
  "bufferToPrivateKeyString cb58Encode pk = ''PrivateKey-'' @ cb58Encode pk"

definition privateKeyStringToBuffer ::
  "(string \<Rightarrow> 'x + byte list) \<Rightarrow> string \<Rightarrow> 'x error + byte list" where
  "privateKeyStringToBuffer cb58Decode pk =
     (if \<not> startsWith pk ''PrivateKey-'' then Inl (PrivateKeyError PrivateKeyError_message)
      else
        let pksplit = String_split pk (CHR ''-'')
        in (case cb58Decode (pksplit ! (length pksplit - 1)) of
              Inl x \<Rightarrow> Inl (Thrown x)
            | Inr buf \<Rightarrow> Inr buf))"

definition bufferToNodeIDString :: "(byte list \<Rightarrow> string) \<Rightarrow> byte list \<Rightarrow> string" where
  "bufferToNodeIDString cb58Encode pk = ''NodeID-'' @ cb58Encode pk"

definition NodeIDStringToBuffer ::
  "(string \<Rightarrow> 'x + byte list) \<Rightarrow> string \<Rightarrow> 'x error + byte list" where
  "NodeIDStringToBuffer cb58Decode pk =
     (if \<not> startsWith pk ''NodeID-'' then Inl (NodeIdError NodeIdError_message)
      else
        let pksplit = String_split pk (CHR ''-'')
        in (case cb58Decode (pksplit ! (length pksplit - 1)) of
              Inl x \<Rightarrow> Inl (Thrown x)
            | Inr buf \<Rightarrow> Inr buf))"

text \<open>
  \<^verbatim>\<open>getPreferredHRP\<close> reads three constants of \<^verbatim>\<open>utils/constants\<close>, which is not
  among the source files: the table \<^verbatim>\<open>NetworkIDToHRP\<close>, \<^verbatim>\<open>DefaultNetworkID\<close> and
  \<^verbatim>\<open>FallbackHRP\<close>. They are parameters. The table is keyed by network number (its
  property names are the decimal strings of the numbers, and no property a plain
  object inherits has such a name, so \<^verbatim>\<open>in\<close> and the index read see the table's
  own entries only). The argument is optional: \<open>None\<close> is \<^verbatim>\<open>undefined\<close>, and
  \<^verbatim>\<open>undefined in NetworkIDToHRP\<close> asks for the key \<^verbatim>\<open>"undefined"\<close>, which a table
  keyed by numbers does not have. The result is a string, or \<^verbatim>\<open>undefined\<close> (\<open>None\<close>)
  when the index read misses.
\<close>

definition js_in :: "int option \<Rightarrow> (int \<rightharpoonup> string) \<Rightarrow> bool" where
  "js_in key table = (case key of None \<Rightarrow> False | Some n \<Rightarrow> table n \<noteq> None)"

definition js_index :: "(int \<rightharpoonup> string) \<Rightarrow> int option \<Rightarrow> string option" where
  "js_index table key = (case key of None \<Rightarrow> None | Some n \<Rightarrow> table n)"

definition getPreferredHRP ::
  "(int \<rightharpoonup> string) \<Rightarrow> int \<Rightarrow> string \<Rightarrow> int option \<Rightarrow> 'x error + string option" where
  "getPreferredHRP NetworkIDToHRP DefaultNetworkID FallbackHRP networkID =
     (if js_in networkID NetworkIDToHRP then Inr (js_index NetworkIDToHRP networkID)
      else if networkID = None then Inr (NetworkIDToHRP DefaultNetworkID)
      else Inr (Some FallbackHRP))"

section \<open>Numbers\<close>

text \<open>
  A JavaScript number is a double. \<open>number\<close> covers the numbers that hold an
  integer, the two infinities and \<^verbatim>\<open>NaN\<close>: \<open>Num n\<close> is the double whose value is
  the integer \<open>n\<close> (an integer a double can hold: one of at most 53 significant
  bits), and the zero of either sign is \<open>Num 0\<close>. The sum and the product of two
  such numbers is the exact result rounded to the nearest double, a tie going to the
  even significand, and to an infinity from \<open>2 ^ 1024 - 2 ^ 970\<close> on.
\<close>

datatype number = Num int | PosInfinity | NegInfinity | NaN

function bit_length :: "nat \<Rightarrow> nat" where
  "bit_length n = (if n = 0 then 0 else Suc (bit_length (n div 2)))"
  by pat_completeness auto
termination
  by (relation "measure id") auto

declare bit_length.simps [simp del]

definition round_to_double :: "int \<Rightarrow> int" where
  "round_to_double x =
     (let a = nat \<bar>x\<bar>;
          e = bit_length a - 53;
          q = a div 2 ^ e;
          r = a mod 2 ^ e;
          q' = (if 2 ^ e < 2 * r \<or> (2 * r = 2 ^ e \<and> odd q) then q + 1 else q)
      in sgn x * int (q' * 2 ^ e))"

definition number_of_int :: "int \<Rightarrow> number" where
  "number_of_int x =
     (let r = round_to_double x
      in if 2 ^ 1024 \<le> r then PosInfinity
         else if r \<le> - (2 ^ 1024) then NegInfinity
         else Num r)"

fun Number_add :: "number \<Rightarrow> number \<Rightarrow> number" where
  "Number_add NaN y = NaN"
| "Number_add x NaN = NaN"
| "Number_add PosInfinity NegInfinity = NaN"
| "Number_add NegInfinity PosInfinity = NaN"
| "Number_add PosInfinity y = PosInfinity"
| "Number_add x PosInfinity = PosInfinity"
| "Number_add NegInfinity y = NegInfinity"
| "Number_add x NegInfinity = NegInfinity"
| "Number_add (Num a) (Num b) = number_of_int (a + b)"

fun infinity_times :: "bool \<Rightarrow> number \<Rightarrow> number" where
  "infinity_times positive NaN = NaN"
| "infinity_times positive PosInfinity = (if positive then PosInfinity else NegInfinity)"
| "infinity_times positive NegInfinity = (if positive then NegInfinity else PosInfinity)"
| "infinity_times positive (Num b) =
     (if b = 0 then NaN
      else if (0 < b) = positive then PosInfinity else NegInfinity)"

fun Number_mul :: "number \<Rightarrow> number \<Rightarrow> number" where
  "Number_mul NaN y = NaN"
| "Number_mul x NaN = NaN"
| "Number_mul PosInfinity y = infinity_times True y"
| "Number_mul NegInfinity y = infinity_times False y"
| "Number_mul x PosInfinity = infinity_times True x"
| "Number_mul x NegInfinity = infinity_times False x"
| "Number_mul (Num a) (Num b) = number_of_int (a * b)"

section \<open>Fee accountant (utils/helperfunctions.ts)\<close>

text \<open>
  Modelled from the spec: the fee table \<^verbatim>\<open>Defaults.network\<close> of \<^verbatim>\<open>utils/constants\<close>
  and the transaction classes of \<^verbatim>\<open>apis/evm\<close>, neither among the source files. Of the
  table the accountant reads \<^verbatim>\<open>Defaults.network[1].C["txBytesGas"]\<close>: a table from
  network number to a network's settings, of which the C chain's settings hold the
  byte-gas rate. Of a transaction it reads the serialised bytes (\<^verbatim>\<open>toBuffer()\<close>) and,
  after an unchecked cast to \<^verbatim>\<open>ImportTx\<close>, the import inputs, each reporting its
  own cost (\<^verbatim>\<open>getCost()\<close>). A transaction also carries the number of its network,
  which the accountant never reads. A transaction of another kind has no
  \<^verbatim>\<open>getImportInputs\<close> method, and calling it is a \<open>TypeError\<close>.

  Rates and costs are numbers, and the accountant multiplies and adds them as such;
  the length of a buffer is an integer far below \<open>2 ^ 53\<close>.
\<close>

record C_chain =
  txBytesGas :: number

record network =
  network_C :: C_chain

record TransferableInput =
  getCost :: number

datatype EVMBaseTx =
    ImportTx (getNetworkID: int) (importInputs: "TransferableInput list")
  | OtherTx (getNetworkID: int)

record UnsignedTx =
  toBuffer :: "byte list"
  getTransaction :: EVMBaseTx

definition calcBytesCost :: "(int \<rightharpoonup> network) \<Rightarrow> number \<Rightarrow> 'x error + number" where
  "calcBytesCost Defaults_network len =
     (case Defaults_network 1 of
        None \<Rightarrow> Inl TypeError
      | Some n \<Rightarrow> Inr (Number_mul len (txBytesGas (network_C n))))"

definition getImportInputs :: "EVMBaseTx \<Rightarrow> 'x error + TransferableInput list" where
  "getImportInputs t = (case t of ImportTx _ ins \<Rightarrow> Inr ins | OtherTx _ \<Rightarrow> Inl TypeError)"

definition costImportTx :: "(int \<rightharpoonup> network) \<Rightarrow> UnsignedTx \<Rightarrow> 'x error + number" where
  "costImportTx Defaults_network tx =
     (case calcBytesCost Defaults_network (Num (int (length (toBuffer tx)))) of
        Inl e \<Rightarrow> Inl e
      | Inr cost \<Rightarrow>
          (case getImportInputs (getTransaction tx) of
             Inl e \<Rightarrow> Inl e
           | Inr inputs \<Rightarrow>
               Inr (foldl (\<lambda>cost input. Number_add cost (getCost input)) cost inputs)))"




section \<open>RPC dispatch middleware (class AVACore)\<close>

subsection \<open>Numbers in strings\<close>

text \<open>
  \<^verbatim>\<open>protocol+'://'+ip+':'+port\<close> appends a number to a string: the language
  converts the number to a string first. The conversion is a parameter of the
  model, \<open>ToString\<close>, and the type of the port, \<open>'n\<close>, is left open, so that
  what is proved holds of every number and of the language's own conversion.

  For the examples, ports are 16-bit numbers, which are written as their decimal
  numerals (as every integer below \<open>2 ^ 53\<close> is).
\<close>

definition digit_char :: "nat \<Rightarrow> char" where
  "digit_char d = ''0123456789'' ! d"

function nat_toString :: "nat \<Rightarrow> string" where
  "nat_toString n =
     (if n < 10 then [digit_char n] else nat_toString (n div 10) @ [digit_char (n mod 10)])"
  by pat_completeness auto
termination
  by (relation "measure id") auto

declare nat_toString.simps [simp del]

definition port_toString :: "16 word \<Rightarrow> string" where
  "port_toString p = nat_toString (unat p)"

subsection \<open>The registry object\<close>

text \<open>
  \<^verbatim>\<open>apis\<close> is a plain object created by the literal \<^verbatim>\<open>{}\<close> and used as a
  dictionary from label to module instance. A plain object has own properties and a
  prototype. The literal's prototype is \<^verbatim>\<open>Object.prototype\<close> (\<open>proto = None\<close>),
  whose members every property read falls back to. \<^verbatim>\<open>__proto__\<close> is an accessor
  of \<^verbatim>\<open>Object.prototype\<close>: reading it yields the prototype, and assigning an object
  to it replaces the prototype (\<open>proto = Some inst\<close>) instead of creating a property.

  A read yields a value: \<^verbatim>\<open>undefined\<close>, a module instance, the object
  \<^verbatim>\<open>Object.prototype\<close> itself, the member of \<^verbatim>\<open>Object.prototype\<close> of a given
  name, or \<open>Via inst k\<close>: whatever the instance \<open>inst\<close>, installed as
  prototype, answers for the property \<open>k\<close> (the instances are opaque, so this
  value is not looked into). Module instances are taken to be ordinary objects: their
  prototype chain ends in \<^verbatim>\<open>Object.prototype\<close> and holds no setter or read-only
  property that would intercept an assignment to the registry.
\<close>

datatype 'a jsvalue =
    Undefined
  | Instance 'a
  | ObjectPrototype
  | Inherited string
  | Via 'a string

record 'a js_object =
  own :: "string \<rightharpoonup> 'a"
  proto :: "'a option"

definition Object_prototype_names :: "string list" where
  "Object_prototype_names =
     [''constructor'', ''__defineGetter__'', ''__defineSetter__'', ''hasOwnProperty'',
      ''__lookupGetter__'', ''__lookupSetter__'', ''isPrototypeOf'',
      ''propertyIsEnumerable'', ''toString'', ''valueOf'', ''toLocaleString'']"

definition empty_object :: "'a js_object" where
  "empty_object = \<lparr>own = Map.empty, proto = None\<rparr>"

definition js_get :: "'a js_object \<Rightarrow> string \<Rightarrow> 'a jsvalue" where
  "js_get obj k =
     (case own obj k of
        Some inst \<Rightarrow> Instance inst
      | None \<Rightarrow>
          (case proto obj of
             None \<Rightarrow>
               if k = ''__proto__'' then ObjectPrototype
               else if k \<in> set Object_prototype_names then Inherited k
               else Undefined
           | Some p \<Rightarrow> if k = ''__proto__'' then Instance p else Via p k))"

definition js_set :: "'a js_object \<Rightarrow> string \<Rightarrow> 'a \<Rightarrow> 'a js_object" where
  "js_set obj k inst =
     (if k = ''__proto__'' \<and> own obj k = None then obj\<lparr>proto := Some inst\<rparr>
      else obj\<lparr>own := (own obj)(k \<mapsto> inst)\<rparr>)"

subsection \<open>Connection descriptor and registry\<close>

record ('a, 'n) AVACore =
  protocol :: string
  ip :: string
  port :: 'n
  url :: string
  apis :: "'a js_object"

definition setAddress ::
  "('n \<Rightarrow> string) \<Rightarrow> string \<Rightarrow> 'n \<Rightarrow> string option \<Rightarrow> ('a, 'n) AVACore
     \<Rightarrow> ('a, 'n) AVACore" where
  "setAddress ToString new_ip new_port new_protocol this =
     (let p = (case new_protocol of None \<Rightarrow> ''http'' | Some q \<Rightarrow> q)
      in this\<lparr>ip := new_ip, port := new_port, protocol := p,
               url := p @ ''://'' @ new_ip @ '':'' @ ToString new_port\<rparr>)"

definition getProtocol :: "('a, 'n) AVACore \<Rightarrow> string" where
  "getProtocol this = protocol this"

definition getIP :: "('a, 'n) AVACore \<Rightarrow> string" where
  "getIP this = ip this"

definition getPort :: "('a, 'n) AVACore \<Rightarrow> 'n" where
  "getPort this = port this"

definition getURL :: "('a, 'n) AVACore \<Rightarrow> string" where
  "getURL this = url this"

text \<open>
  A module's constructor is a parameter. It is handed the middleware object itself
  (\<^verbatim>\<open>new constructorFN(this)\<close>), so it can change the middleware through its
  public methods before it returns, and it acts on the world outside (\<open>'w\<close>): it
  takes the middleware, the base path when one is passed, and the world, and returns
  the instance, or what it throws, with the middleware and the world as it leaves
  them. The assignment then writes the instance into the registry as the constructor
  left it; when the constructor throws, nothing is assigned. (The registry field is
  protected, so a constructor can add to the registry but not put another object in
  its place.)
  \<^verbatim>\<open>api\<close> reads the registry at the label; its cast to the module's type is a
  compile-time assertion and does nothing at run time.
\<close>

definition addAPI ::
  "string
     \<Rightarrow> (('a, 'n) AVACore \<Rightarrow> string option \<Rightarrow> 'w \<Rightarrow> ('x + 'a) \<times> ('a, 'n) AVACore \<times> 'w)
     \<Rightarrow> string option \<Rightarrow> ('a, 'n) AVACore \<Rightarrow> 'w
     \<Rightarrow> ('x error + unit) \<times> ('a, 'n) AVACore \<times> 'w" where
  "addAPI apiName constructorFN baseurl this w =
     (case baseurl of
        None \<Rightarrow>
          (case constructorFN this None w of
             (Inl x, this', w') \<Rightarrow> (Inl (Thrown x), this', w')
           | (Inr inst, this', w') \<Rightarrow>
               (Inr (), this'\<lparr>apis := js_set (apis this') apiName inst\<rparr>, w'))
      | Some b \<Rightarrow>
          (case constructorFN this (Some b) w of
             (Inl x, this', w') \<Rightarrow> (Inl (Thrown x), this', w')
           | (Inr inst, this', w') \<Rightarrow>
               (Inr (), this'\<lparr>apis := js_set (apis this') apiName inst\<rparr>, w')))"

definition api :: "string \<Rightarrow> ('a, 'n) AVACore \<Rightarrow> 'a jsvalue" where
  "api apiName this = js_get (apis this) apiName"

text \<open>
  The constructor runs the field initialiser \<^verbatim>\<open>apis = {}\<close> and then
  \<^verbatim>\<open>setAddress\<close>, which assigns the four connection fields; until then they are
  unset, and the values they hold below before the call stand for that.
\<close>

definition new_AVACore ::
  "('n \<Rightarrow> string) \<Rightarrow> string \<Rightarrow> 'n \<Rightarrow> string option \<Rightarrow> ('a, 'n) AVACore" where
  "new_AVACore ToString new_ip new_port new_protocol =
     setAddress ToString new_ip new_port
       (Some (case new_protocol of None \<Rightarrow> ''http'' | Some q \<Rightarrow> q))
       \<lparr>protocol = [], ip = [], port = new_port, url = [], apis = empty_object\<rparr>"

subsection \<open>The request executor\<close>

text \<open>
  Query parameters and headers are objects, passed through as they are; a request body
  is a string, an object or binary data. \<^verbatim>\<open>AxiosRequestConfig\<close> is the transport's
  request description: every field is optional (\<open>None\<close> is an absent field). The
  five fields the executor assigns, the two it gives defaults for, and the remaining
  options by name (\<open>cfg_rest\<close>: timeout, authentication and so on).
\<close>

type_synonym 'v object = "string \<rightharpoonup> 'v"

datatype 'v body =
    StringBody string
  | ObjectBody "'v object"
  | BinaryBody "byte list"

record 'v AxiosRequestConfig =
  cfg_url :: "string option"
  cfg_method :: "string option"
  cfg_headers :: "'v object option"
  cfg_data :: "'v body option"
  cfg_params :: "'v object option"
  cfg_baseURL :: "string option"
  cfg_responseType :: "string option"
  cfg_rest :: "string \<rightharpoonup> 'v"

text \<open>
  What the transport resolves with (\<^verbatim>\<open>AxiosResponse\<close>); further fields, such as the
  request description it echoes, are the record's extension.
\<close>

record ('d, 'v, 'r) AxiosResponse =
  resp_data :: 'd
  resp_headers :: "'v object"
  resp_request :: 'r
  resp_status :: int
  resp_statusText :: string

text \<open>
  Modelled from the spec: the class \<^verbatim>\<open>RequestResponseData\<close> of \<^verbatim>\<open>utils/types\<close>,
  which is not among the source files: the canonical response, holding payload,
  headers, raw transport handle, status code and status text. The executor creates
  one and assigns these five fields.
\<close>

record ('d, 'v, 'r) RequestResponseData =
  xhr_data :: 'd
  xhr_headers :: "'v object"
  xhr_request :: 'r
  xhr_status :: int
  xhr_statusText :: string

text \<open>
  A settled promise is a sum: \<open>Inl\<close> a rejection with its reason, \<open>Inr\<close> a
  fulfilment with its value. \<open>then_fulfilled\<close> is \<^verbatim>\<open>promise.then(f)\<close> with a
  fulfilment handler only (and a handler that does not throw).
\<close>

definition then_fulfilled :: "'e + 'a \<Rightarrow> ('a \<Rightarrow> 'b) \<Rightarrow> 'e + 'b" where
  "then_fulfilled promise f = (case promise of Inl reason \<Rightarrow> Inl reason | Inr v \<Rightarrow> Inr (f v))"

definition purge ::
  "('d, 'v, 'r, 'z) AxiosResponse_scheme \<Rightarrow> ('d, 'v, 'r) RequestResponseData" where
  "purge resp =
     \<lparr>xhr_data = resp_data resp, xhr_headers = resp_headers resp,
      xhr_request = resp_request resp, xhr_status = resp_status resp,
      xhr_statusText = resp_statusText resp\<rparr>"

text \<open>
  \<open>request_config\<close> is the first half of \<^verbatim>\<open>_request\<close>: the request description
  handed to the transport. \<open>headers\<close> is optional with default \<^verbatim>\<open>{}\<close>;
  \<open>axiosConfig\<close> is optional, and an object is always truthy. When an override is
  passed, the five assignments write into the caller's own object; the result below
  is that object as it stands after them.
\<close>

definition request_config ::
  "('n \<Rightarrow> string) \<Rightarrow> ('a, 'n) AVACore \<Rightarrow> string \<Rightarrow> string \<Rightarrow> 'v object \<Rightarrow> 'v body
     \<Rightarrow> 'v object option \<Rightarrow> 'v AxiosRequestConfig option \<Rightarrow> 'v AxiosRequestConfig" where
  "request_config ToString this xhrmethod baseurl getdata postdata headers axiosConfig =
     (let hdrs = (case headers of None \<Rightarrow> Map.empty | Some h \<Rightarrow> h);
          config =
            (case axiosConfig of
               Some c \<Rightarrow> c
             | None \<Rightarrow>
                 \<lparr>cfg_url = None, cfg_method = None, cfg_headers = None, cfg_data = None,
                  cfg_params = None,
                  cfg_baseURL =
                    Some (protocol this @ ''://'' @ ip this @ '':'' @ ToString (port this)),
                  cfg_responseType = Some ''text'',
                  cfg_rest = Map.empty\<rparr>)
      in config\<lparr>cfg_url := Some baseurl, cfg_method := Some xhrmethod,
                 cfg_headers := Some hdrs, cfg_data := Some postdata,
                 cfg_params := Some getdata\<rparr>)"

text \<open>
  The transport (\<^verbatim>\<open>axios.request\<close>) is a parameter. It acts on the world outside
  (\<open>'w\<close>: the network, the node), so it takes the world and returns the settled
  promise with the world after the call. \<open>request\<close> is \<^verbatim>\<open>_request\<close>.
\<close>

definition request ::
  "('v AxiosRequestConfig \<Rightarrow> 'w \<Rightarrow> ('e + ('d, 'v, 'r, 'z) AxiosResponse_scheme) \<times> 'w)
     \<Rightarrow> ('n \<Rightarrow> string) \<Rightarrow> ('a, 'n) AVACore \<Rightarrow> string \<Rightarrow> string \<Rightarrow> 'v object \<Rightarrow> 'v body
     \<Rightarrow> 'v object option \<Rightarrow> 'v AxiosRequestConfig option \<Rightarrow> 'w
     \<Rightarrow> ('e + ('d, 'v, 'r) RequestResponseData) \<times> 'w" where
  "request axios_request ToString this xhrmethod baseurl getdata postdata headers axiosConfig w =
     (let config =
            request_config ToString this xhrmethod baseurl getdata postdata headers axiosConfig;
          (settled, w') = axios_request config w
      in (then_fulfilled settled purge, w'))"

definition get ::
  "('v AxiosRequestConfig \<Rightarrow> 'w \<Rightarrow> ('e + ('d, 'v, 'r, 'z) AxiosResponse_scheme) \<times> 'w)
     \<Rightarrow> ('n \<Rightarrow> string) \<Rightarrow> ('a, 'n) AVACore \<Rightarrow> string \<Rightarrow> 'v object
     \<Rightarrow> 'v object option \<Rightarrow> 'v AxiosRequestConfig option \<Rightarrow> 'w
     \<Rightarrow> ('e + ('d, 'v, 'r) RequestResponseData) \<times> 'w" where
  "get axios_request ToString this baseurl getdata headers axiosConfig =
     request axios_request ToString this ''GET'' baseurl getdata (ObjectBody Map.empty)
       (Some (case headers of None \<Rightarrow> Map.empty | Some h \<Rightarrow> h)) axiosConfig"

definition delete ::
  "('v AxiosRequestConfig \<Rightarrow> 'w \<Rightarrow> ('e + ('d, 'v, 'r, 'z) AxiosResponse_scheme) \<times> 'w)
     \<Rightarrow> ('n \<Rightarrow> string) \<Rightarrow> ('a, 'n) AVACore \<Rightarrow> string \<Rightarrow> 'v object
     \<Rightarrow> 'v object option \<Rightarrow> 'v AxiosRequestConfig option \<Rightarrow> 'w
     \<Rightarrow> ('e + ('d, 'v, 'r) RequestResponseData) \<times> 'w" where
  "delete axios_request ToString this baseurl getdata headers axiosConfig =
     request axios_request ToString this ''DELETE'' baseurl getdata (ObjectBody Map.empty)
       (Some (case headers of None \<Rightarrow> Map.empty | Some h \<Rightarrow> h)) axiosConfig"

definition post ::
  "('v AxiosRequestConfig \<Rightarrow> 'w \<Rightarrow> ('e + ('d, 'v, 'r, 'z) AxiosResponse_scheme) \<times> 'w)
     \<Rightarrow> ('n \<Rightarrow> string) \<Rightarrow> ('a, 'n) AVACore \<Rightarrow> string \<Rightarrow> 'v object \<Rightarrow> 'v body
     \<Rightarrow> 'v object option \<Rightarrow> 'v AxiosRequestConfig option \<Rightarrow> 'w
     \<Rightarrow> ('e + ('d, 'v, 'r) RequestResponseData) \<times> 'w" where
  "post axios_request ToString this baseurl getdata postdata headers axiosConfig =
     request axios_request ToString this ''POST'' baseurl getdata postdata
       (Some (case headers of None \<Rightarrow> Map.empty | Some h \<Rightarrow> h)) axiosConfig"

definition put ::
  "('v AxiosRequestConfig \<Rightarrow> 'w \<Rightarrow> ('e + ('d, 'v, 'r, 'z) AxiosResponse_scheme) \<times> 'w)
     \<Rightarrow> ('n \<Rightarrow> string) \<Rightarrow> ('a, 'n) AVACore \<Rightarrow> string \<Rightarrow> 'v object \<Rightarrow> 'v body
     \<Rightarrow> 'v object option \<Rightarrow> 'v AxiosRequestConfig option \<Rightarrow> 'w
     \<Rightarrow> ('e + ('d, 'v, 'r) RequestResponseData) \<times> 'w" where
  "put axios_request ToString this baseurl getdata postdata headers axiosConfig =
     request axios_request ToString this ''PUT'' baseurl getdata postdata
       (Some (case headers of None \<Rightarrow> Map.empty | Some h \<Rightarrow> h)) axiosConfig"

definition patch ::
  "('v AxiosRequestConfig \<Rightarrow> 'w \<Rightarrow> ('e + ('d, 'v, 'r, 'z) AxiosResponse_scheme) \<times> 'w)
     \<Rightarrow> ('n \<Rightarrow> string) \<Rightarrow> ('a, 'n) AVACore \<Rightarrow> string \<Rightarrow> 'v object \<Rightarrow> 'v body
     \<Rightarrow> 'v object option \<Rightarrow> 'v AxiosRequestConfig option \<Rightarrow> 'w
     \<Rightarrow> ('e + ('d, 'v, 'r) RequestResponseData) \<times> 'w" where
  "patch axios_request ToString this baseurl getdata postdata headers axiosConfig =
     request axios_request ToString this ''PATCH'' baseurl getdata postdata
       (Some (case headers of None \<Rightarrow> Map.empty | Some h \<Rightarrow> h)) axiosConfig"

text \<open>
  A stub transport for examples: it answers \<^verbatim>\<open>{status: 200, data: "ok"}\<close> for the
  path \<^verbatim>\<open>/ext/X/info\<close>, rejects every other request with a network error, and
  records each request description it is handed. And an override that carries values
  of its own for every field but headers and query parameters.
\<close>

definition stub_transport ::
  "unit AxiosRequestConfig \<Rightarrow> unit AxiosRequestConfig list
     \<Rightarrow> (string + (string, unit, unit) AxiosResponse) \<times> unit AxiosRequestConfig list" where
  "stub_transport config sent =
     (if cfg_url config = Some ''/ext/X/info''
      then Inr \<lparr>resp_data = ''ok'', resp_headers = Map.empty, resp_request = (),
                resp_status = 200, resp_statusText = ''OK''\<rparr>
      else Inl ''Network Error'',
      sent @ [config])"

definition example_override :: "unit AxiosRequestConfig" where
  "example_override =
     \<lparr>cfg_url = Some ''/elsewhere'', cfg_method = Some ''POST'', cfg_headers = None,
      cfg_data = Some (StringBody ''stale''), cfg_params = None,
      cfg_baseURL = Some ''https://node.example:443'', cfg_responseType = Some ''json'',
      cfg_rest = [''timeout'' \<mapsto> ()]\<rparr>"

text \<open>
  A constructor for the examples: it numbers the instances it builds, counting in
  the world, and leaves the middleware as it is.
\<close>

definition counting_constructor ::
  "(nat, 16 word) AVACore \<Rightarrow> string option \<Rightarrow> nat
     \<Rightarrow> (unit + nat) \<times> (nat, 16 word) AVACore \<times> nat" where
  "counting_constructor core path built = (Inr (Suc built), core, Suc built)"

section \<open>Properties of the identity formatter\<close>

subsection \<open>Splitting at the separator\<close>

lemma String_split_nonempty: "String_split s sep \<noteq> []"
  by (induction s) (auto split: list.splits)

lemma length_String_split: "length (String_split s sep) = Suc (count_list s sep)"
  by (induction s) (auto split: list.splits)

lemma String_split_no_sep: "sep \<notin> set e \<Longrightarrow> String_split e sep = [e]"
  by (induction e) auto

lemma last_String_split_append:
  "last (String_split (p @ sep # e) sep) = last (String_split e sep)"
proof (induction p)
  case Nil
  show ?case by (simp add: String_split_nonempty)
next
  case (Cons c p)
  show ?case
  proof (cases "c = sep")
    case True
    with Cons show ?thesis by (simp add: String_split_nonempty)
  next
    case False
    obtain seg segs where s: "String_split (p @ sep # e) sep = seg # segs"
      using String_split_nonempty [of "p @ sep # e" sep]
      by (cases "String_split (p @ sep # e) sep") auto
    have "length (String_split (p @ sep # e) sep) \<ge> 2"
      by (simp add: length_String_split)
    with s have "segs \<noteq> []" by auto
    with s False Cons show ?thesis by simp
  qed
qed

text \<open>
  The index \<^verbatim>\<open>pksplit.length - 1\<close> is always in range, and when the text after a
  separator holds no further separator, the segment read there is that text.
\<close>

lemma final_segment:
  assumes "sep \<notin> set e"
  shows "String_split (p @ sep # e) sep ! (length (String_split (p @ sep # e) sep) - 1) = e"
proof -
  have "String_split (p @ sep # e) sep ! (length (String_split (p @ sep # e) sep) - 1)
          = last (String_split (p @ sep # e) sep)"
    by (simp add: last_conv_nth String_split_nonempty)
  also have "\<dots> = last (String_split e sep)" by (rule last_String_split_append)
  also have "\<dots> = e" using assms by (simp add: String_split_no_sep)
  finally show ?thesis .
qed

lemma base58_no_separator: "is_base58 s \<Longrightarrow> CHR ''-'' \<notin> set s"
proof
  assume "is_base58 s" and "CHR ''-'' \<in> set s"
  then have "CHR ''-'' \<in> set base58_alphabet"
    by (auto simp: is_base58_def list_all_iff)
  then show False by (simp add: base58_alphabet_def)
qed

lemma PrivateKeyError_message_names_prefix:
  "String_includes PrivateKeyError_message ''PrivateKey-''"
  by (simp add: PrivateKeyError_message_def quote_def startsWith_def)

lemma NodeIdError_message_names_prefix:
  "String_includes NodeIdError_message ''NodeID-''"
  by (simp add: NodeIdError_message_def quote_def startsWith_def)

subsection \<open>Private keys: string form and back\<close>

text \<open>
  Claim C1. For every byte buffer \<open>b\<close>,
  \<^verbatim>\<open>privateKeyStringToBuffer(bufferToPrivateKeyString(b))\<close> returns \<open>b\<close>: the
  string is \<^verbatim>\<open>"PrivateKey-"\<close> followed by the checksummed base58 encoding of \<open>b\<close>,
  it passes the prefix test, and decoding its final \<^verbatim>\<open>-\<close>-delimited segment
  recovers \<open>b\<close>, given that the codec decodes what it encoded. That the encoding
  is a base58 string is the second assumption: the base58 alphabet has no \<^verbatim>\<open>-\<close>,
  which makes the final segment the whole encoding.
\<close>

theorem privateKey_string_roundtrip:
  assumes "cb58Decode (cb58Encode b) = Inr b"
      and "is_base58 (cb58Encode b)"
  shows "privateKeyStringToBuffer cb58Decode (bufferToPrivateKeyString cb58Encode b) = Inr b"
proof -
  have "startsWith (''PrivateKey-'' @ cb58Encode b) ''PrivateKey-''"
    by (simp add: startsWith_def)
  moreover have "String_split (''PrivateKey'' @ CHR ''-'' # cb58Encode b) (CHR ''-'')
        ! (length (String_split (''PrivateKey'' @ CHR ''-'' # cb58Encode b) (CHR ''-'')) - 1)
      = cb58Encode b"
    using assms(2) by (intro final_segment base58_no_separator)
  ultimately show ?thesis
    using assms(1)
    by (simp add: privateKeyStringToBuffer_def bufferToPrivateKeyString_def Let_def)
qed

text \<open>
  An instance, with a codec that is a one-entry table between the bytes 1, 2, 3 and
  the string \<^verbatim>\<open>2UzHM\<close>.
\<close>

theorem privateKey_string_roundtrip_witness:
  "privateKeyStringToBuffer
     (\<lambda>s. if s = ''2UzHM'' then Inr [1, 2, 3] else Inl ())
     (bufferToPrivateKeyString (\<lambda>b. ''2UzHM'') [1, 2, 3])
   = Inr [1, 2, 3]"
  using privateKey_string_roundtrip
    [of "\<lambda>s. if s = ''2UzHM'' then Inr [1, 2, 3] else Inl ()" "\<lambda>b. ''2UzHM''" "[1, 2, 3]"]
  by (simp add: is_base58_def base58_alphabet_def)

subsection \<open>Prefix enforcement\<close>

text \<open>
  Claim C4. \<^verbatim>\<open>privateKeyStringToBuffer\<close> throws a format error exactly when its
  input does not start with \<^verbatim>\<open>"PrivateKey-"\<close>, and the error is then the
  \<open>PrivateKeyError\<close> whose message names that prefix; likewise
  \<^verbatim>\<open>NodeIDStringToBuffer\<close> throws a format error exactly when its input does not
  start with \<^verbatim>\<open>"NodeID-"\<close>, the \<open>NodeIdError\<close> whose message names
  \<^verbatim>\<open>"NodeID-"\<close>. An input with a malformed prefix is never repaired: the result is
  the error. (With the prefix in place the only failure left is the codec's own,
  which is no format error.)
\<close>

theorem prefix_enforcement:
  "((privateKeyStringToBuffer cb58Decode pk = Inl e \<and> isFormatError e)
      = (\<not> startsWith pk ''PrivateKey-'' \<and> e = PrivateKeyError PrivateKeyError_message))
   \<and> String_includes PrivateKeyError_message ''PrivateKey-''
   \<and> ((NodeIDStringToBuffer cb58Decode pk = Inl e \<and> isFormatError e)
      = (\<not> startsWith pk ''NodeID-'' \<and> e = NodeIdError NodeIdError_message))
   \<and> String_includes NodeIdError_message ''NodeID-''"
proof -
  have pk: "(privateKeyStringToBuffer cb58Decode pk = Inl e \<and> isFormatError e)
      = (\<not> startsWith pk ''PrivateKey-'' \<and> e = PrivateKeyError PrivateKeyError_message)"
    by (auto simp: privateKeyStringToBuffer_def Let_def split: sum.splits)
  have node: "(NodeIDStringToBuffer cb58Decode pk = Inl e \<and> isFormatError e)
      = (\<not> startsWith pk ''NodeID-'' \<and> e = NodeIdError NodeIdError_message)"
    by (auto simp: NodeIDStringToBuffer_def Let_def split: sum.splits)
  show ?thesis
    using pk node PrivateKeyError_message_names_prefix NodeIdError_message_names_prefix
    by blast
qed

text \<open>
  Two instances: \<^verbatim>\<open>privateKeyStringToBuffer("NotAPrefix-abc")\<close> and
  \<^verbatim>\<open>NodeIDStringToBuffer("PrivateKey-abc")\<close>.
\<close>

theorem prefix_enforcement_witness:
  "privateKeyStringToBuffer (\<lambda>s. Inl ()) ''NotAPrefix-abc''
     = Inl (PrivateKeyError PrivateKeyError_message)
   \<and> NodeIDStringToBuffer (\<lambda>s. Inl ()) ''PrivateKey-abc''
     = Inl (NodeIdError NodeIdError_message)"
  using prefix_enforcement
      [of "\<lambda>s. Inl ()" "''NotAPrefix-abc''" "PrivateKeyError PrivateKeyError_message"]
    prefix_enforcement
      [of "\<lambda>s. Inl ()" "''PrivateKey-abc''" "NodeIdError NodeIdError_message"]
  by (simp add: startsWith_def)

subsection \<open>Human-readable prefix of a network\<close>

text \<open>
  Claim C3. \<^verbatim>\<open>getPreferredHRP\<close> returns the table's prefix when its argument is a
  key of the table, the default network's entry when the argument is omitted, and
  the fallback constant when the argument is present but no key of the table; it
  returns a value, and throws nothing, on every input.
\<close>

theorem getPreferredHRP_resolution:
  "(NetworkIDToHRP n = Some hrp \<longrightarrow>
      getPreferredHRP NetworkIDToHRP DefaultNetworkID FallbackHRP (Some n)
        = (Inr (Some hrp) :: 'x error + string option))
   \<and> getPreferredHRP NetworkIDToHRP DefaultNetworkID FallbackHRP None
        = (Inr (NetworkIDToHRP DefaultNetworkID) :: 'x error + string option)
   \<and> (NetworkIDToHRP n = None \<longrightarrow>
      getPreferredHRP NetworkIDToHRP DefaultNetworkID FallbackHRP (Some n)
        = (Inr (Some FallbackHRP) :: 'x error + string option))
   \<and> (\<exists>v. getPreferredHRP NetworkIDToHRP DefaultNetworkID FallbackHRP networkID
        = (Inr v :: 'x error + string option))"
  by (simp add: getPreferredHRP_def js_in_def js_index_def)

text \<open>
  Instances on a table with the networks 1 and 5, default network 1 and the fallback
  \<^verbatim>\<open>custom\<close>: a registered number, no argument, and the unregistered 99999.
\<close>

theorem getPreferredHRP_resolution_witness:
  "getPreferredHRP [1 \<mapsto> ''avax'', 5 \<mapsto> ''fuji''] 1 ''custom'' (Some 5)
     = (Inr (Some ''fuji'') :: unit error + string option)
   \<and> getPreferredHRP [1 \<mapsto> ''avax'', 5 \<mapsto> ''fuji''] 1 ''custom'' None
     = (Inr (Some ''avax'') :: unit error + string option)
   \<and> getPreferredHRP [1 \<mapsto> ''avax'', 5 \<mapsto> ''fuji''] 1 ''custom'' (Some 99999)
     = (Inr (Some ''custom'') :: unit error + string option)"
  using getPreferredHRP_resolution
      [of "[1 \<mapsto> ''avax'', 5 \<mapsto> ''fuji'']" 5 "''fuji''" 1 "''custom''" None, where ?'x = unit]
    getPreferredHRP_resolution
      [of "[1 \<mapsto> ''avax'', 5 \<mapsto> ''fuji'']" 99999 "''avax''" 1 "''custom''" None, where ?'x = unit]
  by simp

section \<open>Properties of the fee accountant\<close>

subsection \<open>Rounding\<close>

lemma bit_length_le: "n < 2 ^ k \<Longrightarrow> bit_length n \<le> k"
proof (induction k arbitrary: n)
  case 0
  then show ?case by (simp add: bit_length.simps)
next
  case (Suc k)
  show ?case
  proof (cases "n = 0")
    case True
    then show ?thesis by (simp add: bit_length.simps)
  next
    case False
    from Suc.prems have "n div 2 < 2 ^ k" by auto
    then have "bit_length (n div 2) \<le> k" by (rule Suc.IH)
    with False show ?thesis by (subst bit_length.simps) simp
  qed
qed

lemma bit_length_2_53: "bit_length 9007199254740992 = 54"
  by (simp add: bit_length.simps)

text \<open>Integers up to \<open>2 ^ 53\<close> in magnitude are doubles, and rounding leaves them.\<close>

lemma round_to_double_safe:
  assumes "\<bar>x\<bar> \<le> 2 ^ 53"
  shows "round_to_double x = x"
proof (cases "\<bar>x\<bar> = 2 ^ 53")
  case True
  then have "nat \<bar>x\<bar> = 9007199254740992" by simp
  then have "round_to_double x = sgn x * 9007199254740992"
    by (simp add: round_to_double_def Let_def bit_length_2_53)
  with True show ?thesis by (auto simp: sgn_if split: if_splits)
next
  case False
  with assms have "nat \<bar>x\<bar> < 2 ^ 53" by simp
  then have "bit_length (nat \<bar>x\<bar>) \<le> 53" by (rule bit_length_le)
  then have "round_to_double x = sgn x * \<bar>x\<bar>"
    by (simp add: round_to_double_def Let_def)
  then show ?thesis by (simp add: sgn_if)
qed

lemma number_of_int_safe:
  assumes "\<bar>x\<bar> \<le> 2 ^ 53"
  shows "number_of_int x = Num x"
proof -
  have "(2::int) ^ 53 < 2 ^ 1024" by (rule power_strict_increasing) simp_all
  with assms have "x < 2 ^ 1024" and "- (2 ^ 1024) < x" by linarith+
  then show ?thesis
    using assms
    by (simp only: number_of_int_def round_to_double_safe Let_def not_le [symmetric] if_False)
qed


text \<open>
  Further values of the rounding: a tie that goes up, \<open>2 ^ 64 - 1\<close>, which is
  no double, and a product that overflows.
\<close>

lemma number_of_int_tie_up: "number_of_int 9007199254740995 = Num 9007199254740996"
proof -
  have "bit_length 9007199254740995 = 54" by (simp add: bit_length.simps)
  then have "round_to_double 9007199254740995 = 9007199254740996"
    by (simp add: round_to_double_def Let_def)
  then show ?thesis by (simp add: number_of_int_def)
qed

lemma number_of_int_2_64: "number_of_int 18446744073709551615 = Num 18446744073709551616"
proof -
  have "bit_length 18446744073709551615 = 64" by (simp add: bit_length.simps)
  then have "round_to_double 18446744073709551615 = 18446744073709551616"
    by (simp add: round_to_double_def Let_def)
  then show ?thesis by (simp add: number_of_int_def)
qed

lemma bit_length_power: "bit_length (2 ^ k) = Suc k"
  by (induction k) (simp_all add: bit_length.simps)

lemma Number_mul_overflows: "Number_mul (Num (2 ^ 512)) (Num (2 ^ 512)) = PosInfinity"
proof -
  have "bit_length (2 ^ 1024) = Suc 1024" by (rule bit_length_power)
  then have "round_to_double (2 ^ 1024) = 2 ^ 1024"
    by (simp add: round_to_double_def Let_def)
  then have "number_of_int (2 ^ 1024) = PosInfinity"
    by (simp add: number_of_int_def)
  then show ?thesis by simp
qed

subsection \<open>Cost of an import transaction\<close>

text \<open>
  The loop over the inputs adds exactly, as long as the costs are non-negative
  integers and the total stays within \<open>2 ^ 53\<close>.
\<close>

lemma foldl_costs:
  assumes "map getCost inputs = map Num cs"
      and "\<forall>c \<in> set cs. 0 \<le> c"
      and "0 \<le> a"
      and "a + sum_list cs \<le> 2 ^ 53"
  shows "foldl (\<lambda>cost input. Number_add cost (getCost input)) (Num a) inputs
           = Num (a + sum_list cs)"
  using assms
proof (induction inputs arbitrary: a cs)
  case Nil
  then show ?case by simp
next
  case (Cons i inputs)
  then obtain c cs' where cs: "cs = c # cs'" and c: "getCost i = Num c"
      and rest: "map getCost inputs = map Num cs'"
    by (cases cs) auto
  from Cons.prems cs have nonneg: "0 \<le> c" "\<forall>c \<in> set cs'. 0 \<le> c" by auto
  then have "0 \<le> sum_list cs'" by (simp add: sum_list_nonneg)
  with Cons.prems cs nonneg have "\<bar>a + c\<bar> \<le> 2 ^ 53" by simp
  then have step: "Number_add (Num a) (Num c) = Num (a + c)"
    by (simp add: number_of_int_safe)
  have "foldl (\<lambda>cost input. Number_add cost (getCost input)) (Num (a + c)) inputs
          = Num (a + c + sum_list cs')"
    using rest nonneg Cons.prems cs by (intro Cons.IH) auto
  with step c cs show ?case by (simp add: add.assoc)
qed

lemma costImportTx_exact:
  assumes "Defaults_network 1 = Some n"
      and "txBytesGas (network_C n) = Num rate"
      and "getTransaction tx = ImportTx nid inputs"
      and "map getCost inputs = map Num costs"
      and "0 \<le> rate" and "\<forall>c \<in> set costs. 0 \<le> c"
      and "int (length (toBuffer tx)) * rate + sum_list costs \<le> 2 ^ 53"
  shows "costImportTx Defaults_network tx =
           Inr (Num (int (length (toBuffer tx)) * rate + sum_list costs))"
proof -
  let ?base = "int (length (toBuffer tx)) * rate"
  have "0 \<le> sum_list costs" using assms(6) by (simp add: sum_list_nonneg)
  moreover have base: "0 \<le> ?base" using assms(5) by simp
  ultimately have "\<bar>?base\<bar> \<le> 2 ^ 53" using assms(7) by simp
  then have "calcBytesCost Defaults_network (Num (int (length (toBuffer tx))))
               = (Inr (Num ?base) :: 'a error + number)"
    using assms(1,2) by (simp add: calcBytesCost_def number_of_int_safe)
  moreover have "foldl (\<lambda>cost input. Number_add cost (getCost input)) (Num ?base) inputs
                   = Num (?base + sum_list costs)"
    using assms(4,6) base assms(7) by (rule foldl_costs)
  ultimately show ?thesis
    using assms(3) by (simp add: costImportTx_def getImportInputs_def)
qed




text \<open>
  The transaction's own network plays no part: the amended equation holds of a
  transaction on a network that the fee table does not list, and it is the equation
  of the claim as stated wherever the table gives the transaction's network the
  rate of network 1.
\<close>

lemma costImportTx_equal_rates:
  assumes "Defaults_network 1 = Some n"
      and "Defaults_network nid = Some n'"
      and "txBytesGas (network_C n') = txBytesGas (network_C n)"
      and "txBytesGas (network_C n') = Num rate"
      and "getTransaction tx = ImportTx nid inputs"
      and "map getCost inputs = map Num costs"
      and "0 \<le> rate" and "\<forall>c \<in> set costs. 0 \<le> c"
      and "int (length (toBuffer tx)) * rate + sum_list costs \<le> 2 ^ 53"
  shows "costImportTx Defaults_network tx =
           Inr (Num (int (length (toBuffer tx)) * rate + sum_list costs))"
  using assms by (intro costImportTx_exact [of Defaults_network n rate tx nid inputs costs]) simp_all

text \<open>
  Outside these assumptions the accountant throws: when the fee table has no network
  1, and when the transaction is not an import transaction.
\<close>

lemma costImportTx_no_network_one:
  "Defaults_network 1 = None \<Longrightarrow> costImportTx Defaults_network tx = Inl TypeError"
  by (simp add: costImportTx_def calcBytesCost_def)

lemma costImportTx_not_import:
  "getTransaction tx = OtherTx nid \<Longrightarrow> costImportTx Defaults_network tx = Inl TypeError"
  by (simp add: costImportTx_def calcBytesCost_def getImportInputs_def split: option.splits)

section \<open>Properties of the middleware\<close>

subsection \<open>Connection descriptor\<close>

lemma port_toString_9650: "port_toString 9650 = ''9650''"
  by (simp add: port_toString_def nat_toString.simps digit_char_def)

text \<open>
  Claim C5. After \<^verbatim>\<open>setAddress(ip, port, proto)\<close> the getters agree with one
  another: \<^verbatim>\<open>getIP()\<close> is \<open>ip\<close>, \<^verbatim>\<open>getPort()\<close> is \<open>port\<close>,
  \<^verbatim>\<open>getProtocol()\<close> is \<open>proto\<close>, or \<^verbatim>\<open>"http"\<close> when the protocol was omitted,
  and \<^verbatim>\<open>getURL()\<close> is exactly protocol, \<^verbatim>\<open>"://"\<close>, host, \<^verbatim>\<open>":"\<close> and the port
  as the language writes it. The four fields change in one step (\<^verbatim>\<open>setAddress\<close>
  is straight-line synchronous code, so nothing can run between its assignments)
  and the registry is untouched. The constructor leaves the connection fields as
  \<^verbatim>\<open>setAddress\<close> with the same arguments leaves them on any instance. This holds
  of every port and of every conversion of numbers to strings.
\<close>

theorem setAddress_getters_consistent:
  fixes this :: "('a, 'n) AVACore" and ToString :: "'n \<Rightarrow> string"
  shows "getIP (setAddress ToString i p q this) = i
   \<and> getPort (setAddress ToString i p q this) = p
   \<and> getProtocol (setAddress ToString i p q this)
       = (case q of None \<Rightarrow> ''http'' | Some r \<Rightarrow> r)
   \<and> getURL (setAddress ToString i p q this)
       = getProtocol (setAddress ToString i p q this) @ ''://''
           @ getIP (setAddress ToString i p q this) @ '':''
           @ ToString (getPort (setAddress ToString i p q this))
   \<and> apis (setAddress ToString i p q this) = apis this
   \<and> getIP (new_AVACore ToString i p q :: ('a, 'n) AVACore)
       = getIP (setAddress ToString i p q this)
   \<and> getPort (new_AVACore ToString i p q :: ('a, 'n) AVACore)
       = getPort (setAddress ToString i p q this)
   \<and> getProtocol (new_AVACore ToString i p q :: ('a, 'n) AVACore)
       = getProtocol (setAddress ToString i p q this)
   \<and> getURL (new_AVACore ToString i p q :: ('a, 'n) AVACore)
       = getURL (setAddress ToString i p q this)"
  by (simp add: setAddress_def new_AVACore_def getIP_def getPort_def getProtocol_def getURL_def
      Let_def split: option.splits)

theorem setAddress_getters_consistent_witness:
  "getURL (setAddress port_toString ''127.0.0.1'' 9650 (Some ''https'')
             (new_AVACore port_toString ''localhost'' 80 None :: (unit, 16 word) AVACore))
     = ''https://127.0.0.1:9650''
   \<and> getURL (new_AVACore port_toString ''127.0.0.1'' 9650 None :: (unit, 16 word) AVACore)
     = ''http://127.0.0.1:9650''"
  using setAddress_getters_consistent
      [of port_toString "''127.0.0.1''" 9650 "Some ''https''"
          "new_AVACore port_toString ''localhost'' 80 None :: (unit, 16 word) AVACore"]
    setAddress_getters_consistent
      [of port_toString "''127.0.0.1''" 9650 None
          "new_AVACore port_toString ''localhost'' 80 None :: (unit, 16 word) AVACore"]
  by (simp add: port_toString_9650)

subsection \<open>Module registry\<close>

lemma addAPI_stores:
  assumes "constructorFN this baseurl w = (Inr inst, this', w')"
  shows "addAPI apiName constructorFN baseurl this w
           = (Inr (), this'\<lparr>apis := js_set (apis this') apiName inst\<rparr>, w')"
  using assms by (cases baseurl) (simp_all add: addAPI_def)

lemma addAPI_constructor_throws:
  assumes "constructorFN this baseurl w = (Inl x, this', w')"
  shows "addAPI apiName constructorFN baseurl this w = (Inl (Thrown x), this', w')"
  using assms by (cases baseurl) (simp_all add: addAPI_def)

lemma js_get_js_set: "js_get (js_set obj k inst) k = Instance inst"
  by (simp add: js_get_def js_set_def)

text \<open>
  The constructor runs once: \<^verbatim>\<open>addAPI\<close> is one call of it followed by the
  assignment, and the middleware and the world after \<^verbatim>\<open>addAPI\<close> are those the
  one call left, but for the registry entry.
\<close>

lemma addAPI_calls_constructor_once:
  "addAPI apiName constructorFN baseurl this w =
     (case constructorFN this baseurl w of
        (Inl x, this', w') \<Rightarrow> (Inl (Thrown x), this', w')
      | (Inr inst, this', w') \<Rightarrow>
          (Inr (), this'\<lparr>apis := js_set (apis this') apiName inst\<rparr>, w'))"
  by (cases baseurl) (simp_all add: addAPI_def)

lemma addAPI_other_label:
  assumes "constructorFN this baseurl w = (Inr inst, this', w')"
      and "addAPI apiName constructorFN baseurl this w = (Inr (), this'', w'')"
      and "other \<noteq> apiName" and "apiName \<noteq> ''__proto__''"
  shows "api other this'' = api other this'"
  using assms
  by (auto simp: addAPI_stores api_def js_get_def js_set_def split: option.splits)

text \<open>
  Claim C7. Registration is last-write-wins by label: for every label and every
  constructor, \<^verbatim>\<open>addAPI(label, F, basePath?)\<close> constructs exactly one instance,
  by one call of \<open>F\<close> with the middleware and with the base path exactly when one
  is supplied: when that call returns an instance, \<^verbatim>\<open>addAPI\<close> returns with the
  world as that one call left it, and with the middleware as that call left it but
  for the registry, where the lookup of the label now yields the instance, whatever
  was registered under the label before and with no duplicate-label error.
  Registering the label a second time leaves the lookup at the second instance.
\<close>

theorem addAPI_last_write_wins:
  fixes constructorFN ::
    "('a, 'n) AVACore \<Rightarrow> string option \<Rightarrow> 'w \<Rightarrow> ('x + 'a) \<times> ('a, 'n) AVACore \<times> 'w"
  assumes "constructorFN this baseurl w = (Inr inst, this1, w1)"
  shows "\<exists>this2. addAPI apiName constructorFN baseurl this w = (Inr (), this2, w1)
           \<and> api apiName this2 = Instance inst
           \<and> getURL this2 = getURL this1 \<and> getIP this2 = getIP this1
           \<and> getPort this2 = getPort this1 \<and> getProtocol this2 = getProtocol this1
           \<and> (\<forall>(constructorFN2 ::
                   ('a, 'n) AVACore \<Rightarrow> string option \<Rightarrow> 'w
                     \<Rightarrow> ('x + 'a) \<times> ('a, 'n) AVACore \<times> 'w)
                 baseurl2 inst2 this3 w3.
                 constructorFN2 this2 baseurl2 w1 = (Inr inst2, this3, w3) \<longrightarrow>
                 (\<exists>this4. addAPI apiName constructorFN2 baseurl2 this2 w1 = (Inr (), this4, w3)
                    \<and> api apiName this4 = Instance inst2))"
proof -
  let ?this2 = "this1\<lparr>apis := js_set (apis this1) apiName inst\<rparr>"
  have "addAPI apiName constructorFN baseurl this w = (Inr (), ?this2, w1)"
    using assms by (rule addAPI_stores)
  moreover have "api apiName ?this2 = Instance inst"
    by (simp add: api_def js_get_js_set)
  moreover have "getURL ?this2 = getURL this1 \<and> getIP ?this2 = getIP this1
      \<and> getPort ?this2 = getPort this1 \<and> getProtocol ?this2 = getProtocol this1"
    by (simp add: getURL_def getIP_def getPort_def getProtocol_def)
  moreover have "\<forall>(constructorFN2 ::
         ('a, 'n) AVACore \<Rightarrow> string option \<Rightarrow> 'w \<Rightarrow> ('x + 'a) \<times> ('a, 'n) AVACore \<times> 'w)
       baseurl2 inst2 this3 w3.
       constructorFN2 ?this2 baseurl2 w1 = (Inr inst2, this3, w3) \<longrightarrow>
       (\<exists>this4. addAPI apiName constructorFN2 baseurl2 ?this2 w1 = (Inr (), this4, w3)
          \<and> api apiName this4 = Instance inst2)"
    by (auto simp: addAPI_stores api_def js_get_js_set)
  ultimately show ?thesis by blast
qed

text \<open>
  An instance: two registrations under the label \<^verbatim>\<open>X\<close> on a new middleware, the
  first without and the second with a base path, with the constructor that numbers
  its instances. After the first, one instance has been built and the label holds
  it; after the second, two have been built and the label holds the second.
\<close>

theorem addAPI_last_write_wins_witness:
  "\<exists>this2 this4.
     addAPI ''X'' counting_constructor None
         (new_AVACore port_toString ''127.0.0.1'' 9650 None) 0
       = (Inr () :: unit error + unit, this2, 1)
     \<and> api ''X'' this2 = Instance 1
     \<and> addAPI ''X'' counting_constructor (Some ''/ext/X'') this2 1
       = (Inr () :: unit error + unit, this4, 2)
     \<and> api ''X'' this4 = Instance 2"
proof -
  have first: "counting_constructor (new_AVACore port_toString ''127.0.0.1'' 9650 None) None 0
      = (Inr 1, new_AVACore port_toString ''127.0.0.1'' 9650 None, 1)"
    by (simp add: counting_constructor_def)
  have "\<exists>this2. addAPI ''X'' counting_constructor None
             (new_AVACore port_toString ''127.0.0.1'' 9650 None) 0
           = (Inr () :: unit error + unit, this2, 1)
         \<and> api ''X'' this2 = Instance 1
         \<and> (\<exists>this4. addAPI ''X'' counting_constructor (Some ''/ext/X'') this2 1
                 = (Inr () :: unit error + unit, this4, 2)
               \<and> api ''X'' this4 = Instance 2)"
  proof -
    from addAPI_last_write_wins
      [of counting_constructor "new_AVACore port_toString ''127.0.0.1'' 9650 None" None 0 1
          "new_AVACore port_toString ''127.0.0.1'' 9650 None" 1 "''X''"] first
    obtain this2 where a: "addAPI ''X'' counting_constructor None
           (new_AVACore port_toString ''127.0.0.1'' 9650 None) 0
         = (Inr () :: unit error + unit, this2, 1)"
      and b: "api ''X'' this2 = Instance 1"
      and c: "\<And>baseurl2 inst2 this3 w3.
         counting_constructor this2 baseurl2 1 = (Inr inst2, this3, w3) \<Longrightarrow>
         (\<exists>this4. addAPI ''X'' counting_constructor baseurl2 this2 1
                     = (Inr () :: unit error + unit, this4, w3)
            \<and> api ''X'' this4 = Instance inst2)"
      by auto
    have "counting_constructor this2 (Some ''/ext/X'') 1 = (Inr 2, this2, 2)"
      by (simp add: counting_constructor_def)
    from c [OF this] a b show ?thesis by auto
  qed
  then show ?thesis by auto
qed

text \<open>
  What the lookup returns: the instance, for a label that is an own property of the
  registry; on a new middleware, \<^verbatim>\<open>undefined\<close> for every label except the names
  of the members of \<^verbatim>\<open>Object.prototype\<close>; and \<^verbatim>\<open>undefined\<close> in general for a
  label that was never registered, provided the label is no such name and the
  registry's prototype was not replaced.
\<close>

lemma api_registered:
  "own (apis this) apiName = Some inst \<Longrightarrow> api apiName this = Instance inst"
  by (simp add: api_def js_get_def)

lemma apis_new_AVACore: "apis (new_AVACore ToString i p q) = empty_object"
  by (simp add: new_AVACore_def setAddress_def Let_def)

lemma api_fresh:
  "api apiName (new_AVACore ToString i p q) =
     (if apiName = ''__proto__'' then ObjectPrototype
      else if apiName \<in> set Object_prototype_names then Inherited apiName
      else Undefined)"
  by (simp add: api_def apis_new_AVACore js_get_def empty_object_def)

lemma api_unregistered_plain_label:
  assumes "own (apis this) apiName = None" and "proto (apis this) = None"
      and "apiName \<noteq> ''__proto__''" and "apiName \<notin> set Object_prototype_names"
  shows "api apiName this = Undefined"
  using assms by (simp add: api_def js_get_def)

text \<open>
  Claim C8 says that \<^verbatim>\<open>api(label)\<close> returns the instance stored under the label,
  and \<^verbatim>\<open>undefined\<close> for a label that was never registered. The second half fails
  on the code: the registry is a plain object, and a label that names a member of
  \<^verbatim>\<open>Object.prototype\<close> is answered with that member. On a new middleware, where
  nothing was registered, \<^verbatim>\<open>api("toString")\<close> is the inherited function, not
  \<^verbatim>\<open>undefined\<close>.
\<close>

theorem api_unregistered_label_inherited:
  "api ''toString'' (new_AVACore ToString ''127.0.0.1'' 9650 None :: (unit, int) AVACore)
     = Inherited ''toString''"
  by (simp add: api_def new_AVACore_def setAddress_def js_get_def empty_object_def
      Object_prototype_names_def)

subsection \<open>Request executor\<close>

text \<open>
  The executor hands the transport one request description, once, and the world after
  the call is the world the transport left.
\<close>

lemma request_calls_transport_once:
  "request axios_request ToString this m b g p h c w =
     (then_fulfilled (fst (axios_request (request_config ToString this m b g p h c) w)) purge,
      snd (axios_request (request_config ToString this m b g p h c) w))"
  by (simp add: request_def split: prod.splits)

lemma request_config_url: "cfg_url (request_config ToString this m b g p h c) = Some b"
  by (simp add: request_config_def)

text \<open>
  Claim C6. When the transport fulfils, \<^verbatim>\<open>_request\<close> fulfils with the canonical
  response: a \<^verbatim>\<open>RequestResponseData\<close> whose data is the transport's body and
  whose headers, request handle, status and status text are the transport's. When
  the transport rejects, \<^verbatim>\<open>_request\<close> rejects with the same reason. Either way
  the transport was called once: no retry, and no rejection swallowed.
\<close>

theorem request_canonical_response:
  "(axios_request (request_config ToString this m b g p h c) w = (Inr resp, w') \<longrightarrow>
      request axios_request ToString this m b g p h c w
        = (Inr \<lparr>xhr_data = resp_data resp, xhr_headers = resp_headers resp,
                xhr_request = resp_request resp, xhr_status = resp_status resp,
                xhr_statusText = resp_statusText resp\<rparr>, w'))
   \<and> (axios_request (request_config ToString this m b g p h c) w = (Inl reason, w') \<longrightarrow>
      request axios_request ToString this m b g p h c w = (Inl reason, w'))"
  by (simp add: request_def then_fulfilled_def purge_def)

text \<open>
  Instances with the stub transport: a \<^verbatim>\<open>GET\<close> of \<^verbatim>\<open>/ext/X/info\<close> with no
  query parameters resolves to status 200 and data \<^verbatim>\<open>"ok"\<close>; a \<^verbatim>\<open>GET\<close> of
  another path is rejected with the transport's reason.
\<close>

theorem request_canonical_response_witness:
  "fst (request stub_transport port_toString
          (new_AVACore port_toString ''127.0.0.1'' 9650 None :: (unit, 16 word) AVACore) ''GET''
          ''/ext/X/info'' Map.empty (ObjectBody Map.empty) None None [])
     = Inr \<lparr>xhr_data = ''ok'', xhr_headers = Map.empty, xhr_request = (),
            xhr_status = 200, xhr_statusText = ''OK''\<rparr>
   \<and> fst (request stub_transport port_toString
          (new_AVACore port_toString ''127.0.0.1'' 9650 None :: (unit, 16 word) AVACore) ''GET''
          ''/ext/Y/info'' Map.empty (ObjectBody Map.empty) None None [])
     = Inl ''Network Error''"
  using request_canonical_response
      [of stub_transport port_toString
          "new_AVACore port_toString ''127.0.0.1'' 9650 None :: (unit, 16 word) AVACore"
          "''GET''" "''/ext/X/info''" Map.empty "ObjectBody Map.empty" None None "[]"
          "\<lparr>resp_data = ''ok'', resp_headers = Map.empty, resp_request = (),
            resp_status = 200, resp_statusText = ''OK''\<rparr>"
          "[request_config port_toString
              (new_AVACore port_toString ''127.0.0.1'' 9650 None :: (unit, 16 word) AVACore)
              ''GET'' ''/ext/X/info'' Map.empty (ObjectBody Map.empty) None None]"
          "''Network Error''"]
    request_canonical_response
      [of stub_transport port_toString
          "new_AVACore port_toString ''127.0.0.1'' 9650 None :: (unit, 16 word) AVACore"
          "''GET''" "''/ext/Y/info''" Map.empty "ObjectBody Map.empty" None None "[]"
          "\<lparr>resp_data = ''ok'', resp_headers = Map.empty, resp_request = (),
            resp_status = 200, resp_statusText = ''OK''\<rparr>"
          "[request_config port_toString
              (new_AVACore port_toString ''127.0.0.1'' 9650 None :: (unit, 16 word) AVACore)
              ''GET'' ''/ext/Y/info'' Map.empty (ObjectBody Map.empty) None None]"
          "''Network Error''"]
  by (simp add: stub_transport_def request_config_url)

text \<open>
  Claim C9. Each convenience wrapper is the executor at a fixed method, for all
  arguments: \<^verbatim>\<open>get\<close> is \<^verbatim>\<open>_request\<close> with \<^verbatim>\<open>"GET"\<close> and the empty object as
  body, \<^verbatim>\<open>delete\<close> is \<^verbatim>\<open>_request\<close> with \<^verbatim>\<open>"DELETE"\<close> and the empty object as
  body, and \<^verbatim>\<open>post\<close>, \<^verbatim>\<open>put\<close> and \<^verbatim>\<open>patch\<close> pass their body on unchanged
  with the methods \<^verbatim>\<open>"POST"\<close>, \<^verbatim>\<open>"PUT"\<close> and \<^verbatim>\<open>"PATCH"\<close>.
\<close>

theorem wrappers_are_fixed_method_requests:
  "get T S this b g h c w = request T S this ''GET'' b g (ObjectBody Map.empty) h c w
   \<and> delete T S this b g h c w = request T S this ''DELETE'' b g (ObjectBody Map.empty) h c w
   \<and> post T S this b g d h c w = request T S this ''POST'' b g d h c w
   \<and> put T S this b g d h c w = request T S this ''PUT'' b g d h c w
   \<and> patch T S this b g d h c w = request T S this ''PATCH'' b g d h c w"
  by (cases h)
    (simp_all add: get_def delete_def post_def put_def patch_def request_def request_config_def)

theorem wrappers_are_fixed_method_requests_witness:
  "get stub_transport port_toString
       (new_AVACore port_toString ''127.0.0.1'' 9650 None :: (unit, 16 word) AVACore)
       ''/ext/X/info'' Map.empty None None []
     = request stub_transport port_toString
         (new_AVACore port_toString ''127.0.0.1'' 9650 None :: (unit, 16 word) AVACore) ''GET''
         ''/ext/X/info'' Map.empty (ObjectBody Map.empty) None None []
   \<and> post stub_transport port_toString
       (new_AVACore port_toString ''127.0.0.1'' 9650 None :: (unit, 16 word) AVACore)
       ''/ext/X/info'' Map.empty (StringBody ''{}'') None None []
     = request stub_transport port_toString
         (new_AVACore port_toString ''127.0.0.1'' 9650 None :: (unit, 16 word) AVACore) ''POST''
         ''/ext/X/info'' Map.empty (StringBody ''{}'') None None []"
  using wrappers_are_fixed_method_requests
    [of stub_transport port_toString
        "new_AVACore port_toString ''127.0.0.1'' 9650 None :: (unit, 16 word) AVACore"
        "''/ext/X/info''" Map.empty None None "[]" "StringBody ''{}''"]
  by simp

text \<open>
  Claim C10. An override passed to \<^verbatim>\<open>_request\<close> does not replace the whole
  request. The one request description \<^verbatim>\<open>_request\<close> hands the transport is the
  override with url, method, headers, body and query parameters overwritten by the
  call's own arguments (the headers default to the empty object), whatever the
  override held in those five fields; the override's other fields (base URL,
  response type, and the rest) reach the transport as they are. The default base
  URL, built from the stored protocol, host and port, and the default response type
  \<^verbatim>\<open>text\<close> reach the transport only when no override is passed.
\<close>

theorem override_keeps_call_arguments:
  "request T S this m b g p h (Some ov) w =
     (then_fulfilled
        (fst (T (ov\<lparr>cfg_url := Some b, cfg_method := Some m,
                     cfg_headers := Some (case h of None \<Rightarrow> Map.empty | Some x \<Rightarrow> x),
                     cfg_data := Some p, cfg_params := Some g\<rparr>) w)) purge,
      snd (T (ov\<lparr>cfg_url := Some b, cfg_method := Some m,
                  cfg_headers := Some (case h of None \<Rightarrow> Map.empty | Some x \<Rightarrow> x),
                  cfg_data := Some p, cfg_params := Some g\<rparr>) w))
   \<and> request T S this m b g p h None w =
     (then_fulfilled
        (fst (T \<lparr>cfg_url = Some b, cfg_method = Some m,
                 cfg_headers = Some (case h of None \<Rightarrow> Map.empty | Some x \<Rightarrow> x),
                 cfg_data = Some p, cfg_params = Some g,
                 cfg_baseURL = Some (protocol this @ ''://'' @ ip this @ '':'' @ S (port this)),
                 cfg_responseType = Some ''text'', cfg_rest = Map.empty\<rparr> w)) purge,
      snd (T \<lparr>cfg_url = Some b, cfg_method = Some m,
              cfg_headers = Some (case h of None \<Rightarrow> Map.empty | Some x \<Rightarrow> x),
              cfg_data = Some p, cfg_params = Some g,
              cfg_baseURL = Some (protocol this @ ''://'' @ ip this @ '':'' @ S (port this)),
              cfg_responseType = Some ''text'', cfg_rest = Map.empty\<rparr> w))"
  by (simp add: request_def request_config_def split: prod.splits)

text \<open>
  Instances with the stub transport, which records what it is handed: with the
  example override, whose url, method and body differ from the call's, and without
  an override.
\<close>

theorem override_keeps_call_arguments_witness:
  "snd (request stub_transport port_toString
          (new_AVACore port_toString ''127.0.0.1'' 9650 None :: (unit, 16 word) AVACore) ''GET''
          ''/ext/X/info'' Map.empty (ObjectBody Map.empty) None (Some example_override) [])
     = [\<lparr>cfg_url = Some ''/ext/X/info'', cfg_method = Some ''GET'',
         cfg_headers = Some Map.empty, cfg_data = Some (ObjectBody Map.empty),
         cfg_params = Some Map.empty, cfg_baseURL = Some ''https://node.example:443'',
         cfg_responseType = Some ''json'', cfg_rest = [''timeout'' \<mapsto> ()]\<rparr>]
   \<and> snd (request stub_transport port_toString
          (new_AVACore port_toString ''127.0.0.1'' 9650 None :: (unit, 16 word) AVACore) ''GET''
          ''/ext/X/info'' Map.empty (ObjectBody Map.empty) None None [])
     = [\<lparr>cfg_url = Some ''/ext/X/info'', cfg_method = Some ''GET'',
         cfg_headers = Some Map.empty, cfg_data = Some (ObjectBody Map.empty),
         cfg_params = Some Map.empty, cfg_baseURL = Some ''http://127.0.0.1:9650'',
         cfg_responseType = Some ''text'', cfg_rest = Map.empty\<rparr>]"
  using override_keeps_call_arguments
    [of stub_transport port_toString
        "new_AVACore port_toString ''127.0.0.1'' 9650 None :: (unit, 16 word) AVACore"
        "''GET''" "''/ext/X/info''" Map.empty "ObjectBody Map.empty" None example_override "[]"]
  by (simp add: stub_transport_def example_override_def new_AVACore_def setAddress_def
      port_toString_9650)

end
